theory Spec2Isabelle
  imports Main "HOL-Library.Sublist"
begin

section \<open>The CPU affinity tool (\<^verbatim>\<open>src/main.cpp\<close>)\<close>

text \<open>
  The program is one translation unit with three build variants, chosen by the
  preprocessor: \<^verbatim>\<open>_WIN32\<close>, \<^verbatim>\<open>__linux__\<close> and the remaining hosts. The model
  makes the variant, the integer widths of the host's data model and the answers of the
  operating system parameters of every function (the record \<open>host\<close>), writes every
  stream output and every operating-system call into one trace in program order, turns
  the exceptions into values, and gives undefined behaviour a result of its own.
\<close>

subsection \<open>Integer types\<close>

text \<open>
  C++ integers are modelled as \<open>int\<close> with the conversions written out. A conversion to
  an unsigned type of \<open>w\<close> bits reduces modulo \<open>2 ^ w\<close>; a conversion to a signed type of
  \<open>w\<close> bits keeps the low \<open>w\<close> bits, read in two's complement (what C++20 prescribes and
  every compiler of the two supported platforms did before).
\<close>

definition to_unsigned :: "nat \<Rightarrow> int \<Rightarrow> int" where
  "to_unsigned w x = x mod 2 ^ w"

definition to_signed :: "nat \<Rightarrow> int \<Rightarrow> int" where
  "to_signed w x = (x + 2 ^ (w - 1)) mod 2 ^ w - 2 ^ (w - 1)"

definition signed_range :: "nat \<Rightarrow> int \<Rightarrow> bool" where
  "signed_range w x \<longleftrightarrow> - (2 ^ (w - 1)) \<le> x \<and> x < 2 ^ (w - 1)"

definition unsigned_range :: "nat \<Rightarrow> int \<Rightarrow> bool" where
  "unsigned_range w x \<longleftrightarrow> 0 \<le> x \<and> x < 2 ^ w"

subsection \<open>The host\<close>

datatype platform = Windows | Linux | Other

datatype word_size = W32 | W64

text \<open>
  What the program asks of the operating system, as answers fixed per run:
  \<^item> \<open>nprocs\<close>: \<^verbatim>\<open>dwNumberOfProcessors\<close> as filled in by \<^verbatim>\<open>GetSystemInfo\<close> on Windows, the
    return value of \<^verbatim>\<open>sysconf(_SC_NPROCESSORS_ONLN)\<close> elsewhere (\<open>-1\<close> on error);
  \<^item> \<open>OpenProcess_ret pid\<close>: the handle, or \<open>None\<close> for \<^verbatim>\<open>NULL\<close>;
  \<^item> \<open>SetProcessAffinityMask_ret hd mask\<close>: the \<^verbatim>\<open>BOOL\<close> result;
  \<^item> \<open>GetLastError_ret calls\<close>: the thread's last-error code after the operating-system
    calls \<open>calls\<close> (it depends on everything called before);
  \<^item> \<open>sched_setaffinity_ret pid cpuset\<close>: the return value and the \<^verbatim>\<open>errno\<close> it leaves;
  \<^item> \<open>strerror\<close>: the C library's text for an \<^verbatim>\<open>errno\<close> value.
\<close>

datatype syscall =
    GetSystemInfo
  | Sysconf_NPROCESSORS_ONLN
  | OpenProcess int
  | SetProcessAffinityMask nat int
  | CloseHandle nat
  | GetLastError
  | Sched_setaffinity int "nat set"

record host =
  os :: platform
  pointer_size :: word_size
  nprocs :: int
  OpenProcess_ret :: "int \<Rightarrow> nat option"
  SetProcessAffinityMask_ret :: "nat \<Rightarrow> int \<Rightarrow> bool"
  GetLastError_ret :: "syscall list \<Rightarrow> int"
  sched_setaffinity_ret :: "int \<Rightarrow> nat set \<Rightarrow> int \<times> int"
  strerror :: "int \<Rightarrow> string"

text \<open>
  The widths the source's types have. \<^verbatim>\<open>int\<close> and \<^verbatim>\<open>unsigned int\<close> have 32 bits on
  every data model in question. \<^verbatim>\<open>long\<close> has 32 bits on Windows (ILP32 and LLP64) and
  the pointer's width elsewhere (ILP32 and LP64). \<^verbatim>\<open>size_t\<close> and \<^verbatim>\<open>DWORD_PTR\<close> have the
  pointer's width, \<^verbatim>\<open>unsigned long long\<close> has 64 bits. Linux's \<^verbatim>\<open>pid_t\<close> is \<^verbatim>\<open>int\<close>.
\<close>

fun bits :: "word_size \<Rightarrow> nat" where
  "bits W32 = 32"
| "bits W64 = 64"

definition int_bits :: nat where
  "int_bits = 32"

definition long_bits :: "host \<Rightarrow> nat" where
  "long_bits h = (if os h = Windows then 32 else bits (pointer_size h))"

definition pointer_bits :: "host \<Rightarrow> nat" where
  "pointer_bits h = bits (pointer_size h)"

subsection \<open>The trace and the results\<close>

datatype event = Stdout string | Stderr string | Sys syscall

text \<open>
  A line written with \<^verbatim>\<open>std::endl\<close> is one \<open>Stdout\<close> or \<open>Stderr\<close> event holding the
  line without its end.
\<close>

datatype completion = Returned | Thrown string | Undefined

datatype status = Exit int | Undefined_behaviour

record outcome =
  trace :: "event list"
  status :: status

fun stderr_of :: "event list \<Rightarrow> string list" where
  "stderr_of [] = []"
| "stderr_of (Stderr s # es) = s # stderr_of es"
| "stderr_of (_ # es) = stderr_of es"

fun stdout_of :: "event list \<Rightarrow> string list" where
  "stdout_of [] = []"
| "stdout_of (Stdout s # es) = s # stdout_of es"
| "stdout_of (_ # es) = stdout_of es"

fun syscalls_of :: "event list \<Rightarrow> syscall list" where
  "syscalls_of [] = []"
| "syscalls_of (Sys c # es) = c # syscalls_of es"
| "syscalls_of (_ # es) = syscalls_of es"

subsection \<open>Decimal output\<close>

text \<open>\<^verbatim>\<open>operator<<\<close> and \<^verbatim>\<open>std::to_string\<close> on integers: decimal, \<^verbatim>\<open>-\<close> for negatives.\<close>

definition digit_char :: "int \<Rightarrow> char" where
  "digit_char d = ''0123456789'' ! nat d"

function show_digits :: "int \<Rightarrow> string" where
  "show_digits n =
     (if n < 10 then [digit_char n] else show_digits (n div 10) @ [digit_char (n mod 10)])"
  by pat_completeness auto
termination
  by (relation "measure nat") auto

declare show_digits.simps [simp del]

definition show_int :: "int \<Rightarrow> string" where
  "show_int i = (if i < 0 then CHR ''-'' # show_digits (- i) else show_digits i)"

subsection \<open>\<^verbatim>\<open>std::stol\<close> and \<^verbatim>\<open>std::stoi\<close>\<close>

text \<open>
  Both call \<^verbatim>\<open>strtol\<close> with base 10 and no position pointer: white space at the start
  is skipped (\<^verbatim>\<open>isspace\<close> in the C locale, the program never sets another), one sign is
  optional, then the longest run of decimal digits is read, and whatever follows it is
  ignored. No digit at all throws \<^verbatim>\<open>std::invalid_argument\<close>; a value outside the result
  type throws \<^verbatim>\<open>std::out_of_range\<close>.
\<close>

datatype parse_error = Invalid_argument | Out_of_range

definition isspace :: "char \<Rightarrow> bool" where
  "isspace c \<longleftrightarrow> c \<in> set [CHR '' '', CHR 0x09, CHR 0x0A, CHR 0x0B, CHR 0x0C, CHR 0x0D]"

definition isdigit :: "char \<Rightarrow> bool" where
  "isdigit c \<longleftrightarrow> c \<in> set ''0123456789''"

definition digit_value :: "char \<Rightarrow> int" where
  "digit_value c = int (of_char c) - 48"

definition digits_value :: "string \<Rightarrow> int" where
  "digits_value ds = foldl (\<lambda>a c. 10 * a + digit_value c) 0 ds"

definition strip_sign :: "string \<Rightarrow> bool \<times> string" where
  "strip_sign s =
     (case s of
        c # r \<Rightarrow> if c = CHR ''-'' then (True, r) else if c = CHR ''+'' then (False, r) else (False, s)
      | [] \<Rightarrow> (False, s))"

definition sto :: "nat \<Rightarrow> string \<Rightarrow> parse_error + int" where
  "sto w str =
     (let (neg, s) = strip_sign (dropWhile isspace str);
          ds = takeWhile isdigit s
      in if ds = [] then Inl Invalid_argument
         else let v = (if neg then - digits_value ds else digits_value ds)
              in if signed_range w v then Inr v else Inl Out_of_range)"

definition stol :: "host \<Rightarrow> string \<Rightarrow> parse_error + int" where
  "stol h = sto (long_bits h)"

definition stoi :: "string \<Rightarrow> parse_error + int" where
  "stoi = sto int_bits"

subsection \<open>\<^verbatim>\<open>print_usage\<close>\<close>

definition print_usage :: "string \<Rightarrow> event list" where
  "print_usage prog_name =
     [Stderr ''A cross-platform tool to set CPU affinity for a process.'',
      Stderr (''Usage: '' @ prog_name @ '' <pid> <core_id>''),
      Stderr (''Example (Linux):   sudo '' @ prog_name @ '' 12345 0''),
      Stderr (''Example (Windows): '' @ prog_name @ '' 6789 1''),
      Stderr (CHR 0x0A # ''Note: This tool usually requires administrator/root privileges.'')]"

subsection \<open>\<^verbatim>\<open>get_hardware_concurrency\<close>\<close>

text \<open>
  The Windows variant returns the \<^verbatim>\<open>DWORD\<close> field as it is; every other variant asks
  \<^verbatim>\<open>sysconf\<close> and turns a result that is not positive into 0.
\<close>

definition get_hardware_concurrency :: "host \<Rightarrow> event list \<times> int" where
  "get_hardware_concurrency h =
     (if os h = Windows then ([Sys GetSystemInfo], to_unsigned 32 (nprocs h))
      else ([Sys Sysconf_NPROCESSORS_ONLN],
            if nprocs h > 0 then to_unsigned 32 (nprocs h) else 0))"

subsection \<open>\<^verbatim>\<open>set_process_affinity\<close>\<close>

text \<open>
  \<^verbatim>\<open>1ULL << core_id\<close> is defined for \<open>0 \<le> core_id < 64\<close> only; the result is then
  converted to \<^verbatim>\<open>DWORD_PTR\<close>.
\<close>

definition make_affinity_mask :: "host \<Rightarrow> int \<Rightarrow> int option" where
  "make_affinity_mask h core_id =
     (if 0 \<le> core_id \<and> core_id < 64
      then Some (to_unsigned (pointer_bits h) (to_unsigned 64 (2 ^ nat core_id)))
      else None)"

text \<open>
  \<^verbatim>\<open>cpu_set_t\<close> holds \<^verbatim>\<open>CPU_SETSIZE\<close> = 1024 bits, modelled as the set of the positions that
  are set. glibc's \<^verbatim>\<open>CPU_SET\<close> converts its first argument to \<^verbatim>\<open>size_t\<close> and sets the bit
  when the index lies inside the structure, and does nothing otherwise.
\<close>

definition CPU_SETSIZE :: int where
  "CPU_SETSIZE = 1024"

definition CPU_ZERO :: "nat set" where
  "CPU_ZERO = {}"

definition CPU_SET :: "host \<Rightarrow> int \<Rightarrow> nat set \<Rightarrow> nat set" where
  "CPU_SET h cpu cpuset =
     (let cpu' = to_unsigned (pointer_bits h) cpu
      in if cpu' div 8 < CPU_SETSIZE div 8 then insert (nat cpu') cpuset else cpuset)"

definition set_process_affinity_windows :: "host \<Rightarrow> int \<Rightarrow> int \<Rightarrow> event list \<times> completion" where
  "set_process_affinity_windows h pid core_id =
     (let t0 = [Stdout ''Running on Windows.'', Sys (OpenProcess pid)]
      in case OpenProcess_ret h pid of
           None \<Rightarrow>
             (t0 @ [Sys GetLastError],
              Thrown (''Could not open process with PID '' @ show_int pid @ ''. Error code: ''
                      @ show_int (GetLastError_ret h [OpenProcess pid])))
         | Some hProcess \<Rightarrow>
             (case make_affinity_mask h core_id of
                None \<Rightarrow> (t0, Undefined)
              | Some affinity_mask \<Rightarrow>
                  let t1 = t0 @ [Sys (SetProcessAffinityMask hProcess affinity_mask)]
                  in if \<not> SetProcessAffinityMask_ret h hProcess affinity_mask
                     then (t1 @ [Sys (CloseHandle hProcess), Sys GetLastError],
                           Thrown (''Failed to set process affinity mask. Error code: ''
                                   @ show_int (GetLastError_ret h
                                        [OpenProcess pid, SetProcessAffinityMask hProcess affinity_mask,
                                         CloseHandle hProcess])))
                     else (t1 @ [Stdout (''Successfully set affinity for PID '' @ show_int pid
                                         @ '' to core '' @ show_int core_id),
                                 Sys (CloseHandle hProcess)],
                           Returned)))"

definition set_process_affinity_linux :: "host \<Rightarrow> int \<Rightarrow> int \<Rightarrow> event list \<times> completion" where
  "set_process_affinity_linux h pid core_id =
     (let cpuset = CPU_SET h core_id CPU_ZERO;
          t0 = [Stdout ''Running on Linux.'', Sys (Sched_setaffinity pid cpuset)];
          (result, errno) = sched_setaffinity_ret h pid cpuset
      in if result \<noteq> 0
         then (t0, Thrown (''sched_setaffinity failed: '' @ strerror h errno))
         else (t0 @ [Stdout (''Successfully set affinity for PID '' @ show_int pid
                             @ '' to core '' @ show_int core_id)],
               Returned))"

definition set_process_affinity_other :: "int \<Rightarrow> int \<Rightarrow> event list \<times> completion" where
  "set_process_affinity_other pid core_id = ([], Thrown ''Unsupported operating system.'')"

text \<open>
  The parameter's type differs between the variants (\<^verbatim>\<open>unsigned long\<close>, \<^verbatim>\<open>pid_t\<close>,
  \<^verbatim>\<open>long\<close>), and \<open>main\<close> passes a \<^verbatim>\<open>long\<close>: \<open>pid_param\<close> is the implicit conversion of
  the call.
\<close>

definition pid_param :: "host \<Rightarrow> int \<Rightarrow> int" where
  "pid_param h pid_long =
     (case os h of
        Windows \<Rightarrow> to_unsigned 32 pid_long
      | Linux \<Rightarrow> to_signed 32 pid_long
      | Other \<Rightarrow> pid_long)"

definition set_process_affinity :: "host \<Rightarrow> int \<Rightarrow> int \<Rightarrow> event list \<times> completion" where
  "set_process_affinity h pid core_id =
     (case os h of
        Windows \<Rightarrow> set_process_affinity_windows h pid core_id
      | Linux \<Rightarrow> set_process_affinity_linux h pid core_id
      | Other \<Rightarrow> set_process_affinity_other pid core_id)"

subsection \<open>\<^verbatim>\<open>main\<close>\<close>

text \<open>
  \<open>main h prog_name args\<close> runs the program on host \<open>h\<close> with \<^verbatim>\<open>argv[0]\<close> = \<open>prog_name\<close> and
  the arguments \<open>args\<close> after it, so \<^verbatim>\<open>argc\<close> = \<open>1 + length args\<close> (an \<^verbatim>\<open>argv\<close> without
  its program name is outside the model). The first conversion that throws ends the
  \<^verbatim>\<open>try\<close> block: \<^verbatim>\<open>std::stoi\<close> runs only after \<^verbatim>\<open>std::stol\<close> has returned.
\<close>

definition parse_failure :: "string \<Rightarrow> parse_error \<Rightarrow> outcome" where
  "parse_failure prog_name e =
     (case e of
        Invalid_argument \<Rightarrow>
          \<lparr>trace = Stderr ''Error: Invalid argument. PID and core_id must be integers.''
                   # print_usage prog_name,
           status = Exit 1\<rparr>
      | Out_of_range \<Rightarrow>
          \<lparr>trace = Stderr ''Error: Argument is out of range.'' # print_usage prog_name,
           status = Exit 1\<rparr>)"

definition privilege_hint :: string where
  "privilege_hint = ''Please ensure the PID is correct and you have sufficient privileges (e.g., run with 'sudo' or as Administrator).''"

text \<open>
  The last \<^verbatim>\<open>try\<close> block and the \<^verbatim>\<open>return 0\<close> after it: \<open>t0\<close> is the trace before the
  call and the pair is what the call of \<^verbatim>\<open>set_process_affinity\<close> did.
\<close>

fun finish :: "event list \<Rightarrow> event list \<times> completion \<Rightarrow> outcome" where
  "finish t0 (t, Returned) = \<lparr>trace = t0 @ t, status = Exit 0\<rparr>"
| "finish t0 (t, Thrown what) =
     \<lparr>trace = t0 @ t @ [Stderr (''An error occurred: '' @ what), Stderr privilege_hint],
      status = Exit 1\<rparr>"
| "finish t0 (t, Undefined) = \<lparr>trace = t0 @ t, status = Undefined_behaviour\<rparr>"

definition main :: "host \<Rightarrow> string \<Rightarrow> string list \<Rightarrow> outcome" where
  "main h prog_name args =
     (if 1 + length args \<noteq> 3 then \<lparr>trace = print_usage prog_name, status = Exit 1\<rparr>
      else
        case stol h (args ! 0) of
          Inl e \<Rightarrow> parse_failure prog_name e
        | Inr pid_long \<Rightarrow>
           (case stoi (args ! 1) of
              Inl e \<Rightarrow> parse_failure prog_name e
            | Inr core_id \<Rightarrow>
               (let (q, num_cpus) = get_hardware_concurrency h
                in if num_cpus > 0 \<and> (core_id < 0 \<or> to_unsigned 32 core_id \<ge> num_cpus)
                   then \<lparr>trace = q @ [Stderr (''Error: Core ID '' @ show_int core_id
                                              @ '' is out of range. ''
                                              @ ''Available cores on this system: 0 to ''
                                              @ show_int (to_unsigned 32 (num_cpus - 1)) @ ''.'')],
                         status = Exit 1\<rparr>
                   else finish q (set_process_affinity h (pid_param h pid_long) core_id))))"

subsection \<open>Notions the properties are stated with\<close>

text \<open>
  An integer literal is an optional sign followed by decimal digits and nothing else;
  \<open>literal_value\<close> is the integer it denotes.
\<close>

definition integer_literal :: "string \<Rightarrow> bool" where
  "integer_literal s \<longleftrightarrow> snd (strip_sign s) \<noteq> [] \<and> list_all isdigit (snd (strip_sign s))"

definition literal_value :: "string \<Rightarrow> int" where
  "literal_value s =
     (if fst (strip_sign s) then - digits_value (snd (strip_sign s))
      else digits_value (snd (strip_sign s)))"

text \<open>
  The values of the platform's own process-identifier type: \<^verbatim>\<open>DWORD\<close> on Windows,
  \<^verbatim>\<open>pid_t\<close> on Linux, and the parameter's type \<^verbatim>\<open>long\<close> on the other hosts.
\<close>

definition native_pid :: "host \<Rightarrow> int \<Rightarrow> bool" where
  "native_pid h p =
     (case os h of
        Windows \<Rightarrow> unsigned_range 32 p
      | Linux \<Rightarrow> signed_range 32 p
      | Other \<Rightarrow> signed_range (long_bits h) p)"

text \<open>
  How many positions the platform's affinity value has: a \<^verbatim>\<open>DWORD_PTR\<close> has the
  pointer's width, a \<^verbatim>\<open>cpu_set_t\<close> has \<^verbatim>\<open>CPU_SETSIZE\<close>.
\<close>

definition mask_capacity :: "host \<Rightarrow> int" where
  "mask_capacity h = (if os h = Windows then int (pointer_bits h) else CPU_SETSIZE)"

text \<open>The call that asks for the number of processors, and the calls that apply an affinity.\<close>

definition core_count_query :: "host \<Rightarrow> syscall" where
  "core_count_query h = (if os h = Windows then GetSystemInfo else Sysconf_NPROCESSORS_ONLN)"



fun is_CloseHandle :: "syscall \<Rightarrow> bool" where
  "is_CloseHandle (CloseHandle _) = True"
| "is_CloseHandle _ = False"

subsection \<open>Example hosts\<close>

text \<open>
  A 64-bit Linux with eight processors online, on which the processes 1 and 12 exist and
  may be changed by the caller; the kernel rejects an empty CPU set with \<^verbatim>\<open>EINVAL\<close> (22)
  and an unknown process with \<^verbatim>\<open>ESRCH\<close> (3).
\<close>

definition linux_lp64 :: host where
  "linux_lp64 =
     \<lparr>os = Linux, pointer_size = W64, nprocs = 8,
      OpenProcess_ret = (\<lambda>pid. None),
      SetProcessAffinityMask_ret = (\<lambda>hProcess m. False),
      GetLastError_ret = (\<lambda>calls. 0),
      sched_setaffinity_ret =
        (\<lambda>pid cpuset. if cpuset = {} then (- 1, 22)
                      else if pid = 1 \<or> pid = 12 then (0, 0) else (- 1, 3)),
      strerror = (\<lambda>errno. if errno = 3 then ''No such process''
                           else if errno = 22 then ''Invalid argument''
                           else ''Unknown error'')\<rparr>"

text \<open>The same host when \<^verbatim>\<open>sysconf\<close> fails.\<close>

definition linux_lp64_unknown :: host where
  "linux_lp64_unknown = linux_lp64\<lparr>nprocs := - 1\<rparr>"

text \<open>
  A 64-bit Windows with eight processors, on which process 6789 can be opened (handle
  256) and accepts every mask but that of core 7; every failure leaves the last-error
  code 87 except a failed open, which leaves 5.
\<close>

definition windows_x64 :: host where
  "windows_x64 =
     \<lparr>os = Windows, pointer_size = W64, nprocs = 8,
      OpenProcess_ret = (\<lambda>pid. if pid = 6789 then Some 256 else None),
      SetProcessAffinityMask_ret = (\<lambda>hProcess m. hProcess = 256 \<and> m \<noteq> 128),
      GetLastError_ret = (\<lambda>calls. if length calls = 1 then 5 else 87),
      sched_setaffinity_ret = (\<lambda>pid cpuset. (- 1, 38)),
      strerror = (\<lambda>errno. ''Unknown error'')\<rparr>"

text \<open>
  The same Windows when \<^verbatim>\<open>dwNumberOfProcessors\<close> is 0, and a 64-bit host of neither
  kind on which \<^verbatim>\<open>sysconf\<close> fails.
\<close>

definition windows_unknown :: host where
  "windows_unknown = windows_x64\<lparr>nprocs := 0\<rparr>"

definition other_unknown :: host where
  "other_unknown = linux_lp64\<lparr>os := Other, nprocs := - 1\<rparr>"

section \<open>Facts about the conversions and the shape of \<open>main\<close>\<close>

lemma sto_range: "sto w s = Inr v \<Longrightarrow> signed_range w v"
  by (auto simp: sto_def Let_def split: prod.splits if_splits)

lemma stol_range: "stol h s = Inr v \<Longrightarrow> signed_range (long_bits h) v"
  by (simp add: stol_def sto_range)

lemma stoi_range: "stoi s = Inr v \<Longrightarrow> - 2147483648 \<le> v \<and> v < 2147483648"
  using sto_range [of int_bits s v] by (simp add: stoi_def signed_range_def int_bits_def)

lemma fst_get_hardware_concurrency:
  "fst (get_hardware_concurrency h) = [Sys (core_count_query h)]"
  by (simp add: get_hardware_concurrency_def core_count_query_def)

lemma get_hardware_concurrency_range:
  "0 \<le> snd (get_hardware_concurrency h) \<and> snd (get_hardware_concurrency h) < 4294967296"
  by (simp add: get_hardware_concurrency_def to_unsigned_def)

lemma to_unsigned_id: "0 \<le> x \<Longrightarrow> x < 2 ^ w \<Longrightarrow> to_unsigned w x = x"
  by (simp add: to_unsigned_def)

lemma to_signed_32_iff: "to_signed 32 x = x \<longleftrightarrow> signed_range 32 x"
proof -
  have "((x + 2147483648) mod 4294967296 - 2147483648 = x)
        \<longleftrightarrow> (- 2147483648 \<le> x \<and> x < 2147483648)"
  proof
    assume "(x + 2147483648) mod 4294967296 - 2147483648 = x"
    then have "x + 2147483648 = (x + 2147483648) mod 4294967296"
      by simp
    moreover have "0 \<le> (x + 2147483648) mod 4294967296"
      and "(x + 2147483648) mod 4294967296 < 4294967296"
      by simp_all
    ultimately show "- 2147483648 \<le> x \<and> x < 2147483648"
      by linarith
  next
    assume "- 2147483648 \<le> x \<and> x < 2147483648"
    then have "(x + 2147483648) mod 4294967296 = x + 2147483648"
      by simp
    then show "(x + 2147483648) mod 4294967296 - 2147483648 = x"
      by simp
  qed
  then show ?thesis
    by (simp add: to_signed_def signed_range_def)
qed

lemma to_unsigned_32_iff: "to_unsigned 32 x = x \<longleftrightarrow> unsigned_range 32 x"
proof -
  have "(x mod 4294967296 = x) \<longleftrightarrow> (0 \<le> x \<and> x < 4294967296)"
  proof
    assume "x mod 4294967296 = x"
    moreover have "0 \<le> x mod 4294967296" and "x mod 4294967296 < 4294967296"
      by simp_all
    ultimately show "0 \<le> x \<and> x < 4294967296"
      by simp
  next
    assume "0 \<le> x \<and> x < 4294967296"
    then show "x mod 4294967296 = x"
      by simp
  qed
  then show ?thesis
    by (simp add: to_unsigned_def unsigned_range_def)
qed

lemma main_parsed:
  assumes "stol h a1 = Inr pid_long" and "stoi a2 = Inr core_id"
  shows "main h prog_name [a1, a2] =
     (if 0 < snd (get_hardware_concurrency h)
         \<and> (core_id < 0 \<or> snd (get_hardware_concurrency h) \<le> core_id)
      then \<lparr>trace = [Sys (core_count_query h),
               Stderr (''Error: Core ID '' @ show_int core_id @ '' is out of range. ''
                       @ ''Available cores on this system: 0 to ''
                       @ show_int (snd (get_hardware_concurrency h) - 1) @ ''.'')],
             status = Exit 1\<rparr>
      else finish [Sys (core_count_query h)]
             (set_process_affinity h (pid_param h pid_long) core_id))"
proof -
  obtain q n where qn: "get_hardware_concurrency h = (q, n)"
    by (cases "get_hardware_concurrency h")
  have q: "q = [Sys (core_count_query h)]"
    using fst_get_hardware_concurrency [of h] qn by simp
  have n: "0 \<le> n" "n < 4294967296"
    using get_hardware_concurrency_range [of h] qn by simp_all
  have c: "0 \<le> core_id \<longrightarrow> to_unsigned 32 core_id = core_id"
    using stoi_range [OF assms(2)] by (simp add: to_unsigned_id)
  have m: "0 < n \<longrightarrow> to_unsigned 32 (n - 1) = n - 1"
    using n by (simp add: to_unsigned_id)
  have cond: "(0 < n \<and> (core_id < 0 \<or> n \<le> to_unsigned 32 core_id))
              \<longleftrightarrow> (0 < n \<and> (core_id < 0 \<or> n \<le> core_id))"
    using c by auto
  have "main h prog_name [a1, a2] =
     (if 0 < n \<and> (core_id < 0 \<or> n \<le> to_unsigned 32 core_id)
      then \<lparr>trace = q @ [Stderr (''Error: Core ID '' @ show_int core_id @ '' is out of range. ''
                       @ ''Available cores on this system: 0 to ''
                       @ show_int (to_unsigned 32 (n - 1)) @ ''.'')],
             status = Exit 1\<rparr>
      else finish q (set_process_affinity h (pid_param h pid_long) core_id))"
    using assms qn by (simp add: main_def)
  also have "\<dots> = (if 0 < n \<and> (core_id < 0 \<or> n \<le> core_id)
      then \<lparr>trace = [Sys (core_count_query h),
               Stderr (''Error: Core ID '' @ show_int core_id @ '' is out of range. ''
                       @ ''Available cores on this system: 0 to ''
                       @ show_int (n - 1) @ ''.'')],
             status = Exit 1\<rparr>
      else finish [Sys (core_count_query h)]
             (set_process_affinity h (pid_param h pid_long) core_id))"
    unfolding cond q using m by (cases "0 < n") simp_all
  finally have "main h prog_name [a1, a2] = (if 0 < n \<and> (core_id < 0 \<or> n \<le> core_id)
      then \<lparr>trace = [Sys (core_count_query h),
               Stderr (''Error: Core ID '' @ show_int core_id @ '' is out of range. ''
                       @ ''Available cores on this system: 0 to ''
                       @ show_int (n - 1) @ ''.'')],
             status = Exit 1\<rparr>
      else finish [Sys (core_count_query h)]
             (set_process_affinity h (pid_param h pid_long) core_id))" .
  then show ?thesis
    by (simp only: qn snd_conv)
qed

lemma main_parse_failure:
  assumes "stol h a1 = Inl e \<or> (stol h a1 = Inr pid_long \<and> stoi a2 = Inl e)"
  shows "main h prog_name [a1, a2] = parse_failure prog_name e"
  using assms by (auto simp: main_def)

lemma stderr_of_print_usage:
  "stderr_of (print_usage prog_name) =
     [''A cross-platform tool to set CPU affinity for a process.'',
      ''Usage: '' @ prog_name @ '' <pid> <core_id>'',
      ''Example (Linux):   sudo '' @ prog_name @ '' 12345 0'',
      ''Example (Windows): '' @ prog_name @ '' 6789 1'',
      CHR 0x0A # ''Note: This tool usually requires administrator/root privileges.'']"
  by (simp add: print_usage_def)


lemma stdout_of_print_usage: "stdout_of (print_usage prog_name) = []"
  by (simp add: print_usage_def)

lemma isdigit_not_isspace: "isdigit c \<Longrightarrow> \<not> isspace c"
  by (auto simp: isdigit_def isspace_def)

lemma sto_literal:
  assumes "integer_literal s"
  shows "sto w s =
     (if signed_range w (literal_value s) then Inr (literal_value s) else Inl Out_of_range)"
proof -
  obtain neg ds where sd: "strip_sign s = (neg, ds)"
    by (cases "strip_sign s")
  have ds: "ds \<noteq> []" "list_all isdigit ds"
    using assms sd by (simp_all add: integer_literal_def)
  have dw: "dropWhile isspace s = s"
  proof (cases s)
    case Nil
    then show ?thesis by simp
  next
    case (Cons c r)
    have "\<not> isspace c"
    proof (cases "c = CHR ''-'' \<or> c = CHR ''+''")
      case True
      then show ?thesis by (auto simp: isspace_def)
    next
      case False
      then have "ds = s"
        using sd Cons by (simp add: strip_sign_def)
      then have "isdigit c"
        using ds(2) Cons by simp
      then show ?thesis by (rule isdigit_not_isspace)
    qed
    then show ?thesis using Cons by simp
  qed
  have tw: "takeWhile isdigit ds = ds"
    using ds(2) by (simp add: list_all_iff)
  show ?thesis
    using ds(1) by (simp add: sto_def literal_value_def Let_def dw sd tw)
qed

lemma parse_failure_shape:
  "status (parse_failure prog_name e) = Exit 1"
  "syscalls_of (trace (parse_failure prog_name e)) = []"
  "stdout_of (trace (parse_failure prog_name e)) = []"
  by (cases e; simp add: parse_failure_def print_usage_def)+

lemma out_of_range_message: "sublist ''out of range'' ''Error: Argument is out of range.''"
  by code_simp

lemma syscalls_of_append: "syscalls_of (t @ u) = syscalls_of t @ syscalls_of u"
  by (induction t rule: syscalls_of.induct) simp_all


lemma syscalls_of_finish:
  "syscalls_of (trace (finish t0 r)) = syscalls_of t0 @ syscalls_of (fst r)"
  by (cases "(t0, r)" rule: finish.cases) (simp_all add: syscalls_of_append)

lemma syscalls_of_linux:
  "syscalls_of (fst (set_process_affinity_linux h pid core_id)) =
     [Sched_setaffinity pid (CPU_SET h core_id CPU_ZERO)]"
  by (simp add: set_process_affinity_linux_def Let_def split: prod.splits)

lemma syscalls_of_windows:
  "prefix [OpenProcess pid] (syscalls_of (fst (set_process_affinity_windows h pid core_id)))"
  by (simp add: set_process_affinity_windows_def Let_def split: option.splits)

lemma pid_param_native: "native_pid h pid_long \<Longrightarrow> pid_param h pid_long = pid_long"
  by (cases "os h")
     (simp_all add: pid_param_def native_pid_def to_signed_32_iff to_unsigned_32_iff)

lemma get_hardware_concurrency_sentinel:
  "os h \<noteq> Windows \<Longrightarrow> nprocs h \<le> 0 \<Longrightarrow> snd (get_hardware_concurrency h) = 0"
  by (simp add: get_hardware_concurrency_def)

lemma main_call_syscalls:
  assumes "main h prog_name [a1, a2] =
           finish [Sys (core_count_query h)] (set_process_affinity h pid core_id)"
  shows "(os h = Linux \<longrightarrow>
            syscalls_of (trace (main h prog_name [a1, a2])) =
              [Sysconf_NPROCESSORS_ONLN, Sched_setaffinity pid (CPU_SET h core_id CPU_ZERO)]) \<and>
         (os h = Windows \<longrightarrow>
            prefix [GetSystemInfo, OpenProcess pid]
              (syscalls_of (trace (main h prog_name [a1, a2])))) \<and>
         (os h = Other \<longrightarrow>
            stderr_of (trace (main h prog_name [a1, a2])) =
              [''An error occurred: Unsupported operating system.'', privilege_hint])"
  using syscalls_of_windows [of pid h core_id]
  by (simp add: assms syscalls_of_finish set_process_affinity_def syscalls_of_linux
      core_count_query_def set_process_affinity_other_def)

lemma make_affinity_mask_single:
  assumes "0 \<le> core_id" and "core_id < int (pointer_bits h)"
  shows "make_affinity_mask h core_id = Some (2 ^ nat core_id)"
proof -
  have k: "nat core_id < pointer_bits h"
    using assms by simp
  have p: "pointer_bits h \<le> 64"
    by (cases "pointer_size h") (simp_all add: pointer_bits_def)
  have "(2::int) ^ nat core_id < 2 ^ pointer_bits h"
    using k by (simp add: power_strict_increasing)
  moreover have "(2::int) ^ nat core_id < 2 ^ 64"
    using k p by (intro power_strict_increasing) simp_all
  ultimately have "to_unsigned (pointer_bits h) (to_unsigned 64 (2 ^ nat core_id)) = 2 ^ nat core_id"
    by (simp add: to_unsigned_def)
  moreover have "core_id < 64"
    using assms(2) p by simp
  ultimately show ?thesis
    using assms(1) by (simp add: make_affinity_mask_def)
qed

lemma CPU_SET_single:
  assumes "0 \<le> core_id" and "core_id < CPU_SETSIZE"
  shows "CPU_SET h core_id CPU_ZERO = {nat core_id}"
proof -
  have "core_id < 2 ^ pointer_bits h"
  proof (cases "pointer_size h")
    case W32
    then show ?thesis using assms(2) by (simp add: pointer_bits_def CPU_SETSIZE_def)
  next
    case W64
    then show ?thesis using assms(2) by (simp add: pointer_bits_def CPU_SETSIZE_def)
  qed
  then have "to_unsigned (pointer_bits h) core_id = core_id"
    using assms(1) by (simp add: to_unsigned_id)
  then show ?thesis
    using assms by (simp add: CPU_SET_def CPU_ZERO_def CPU_SETSIZE_def)
qed

lemma syscalls_of_windows_opened:
  assumes "OpenProcess_ret h pid = Some hProcess" and "make_affinity_mask h core_id = Some m"
  shows "syscalls_of (fst (set_process_affinity_windows h pid core_id)) =
           [OpenProcess pid, SetProcessAffinityMask hProcess m, CloseHandle hProcess]
           @ (if SetProcessAffinityMask_ret h hProcess m then [] else [GetLastError])"
    and "snd (set_process_affinity_windows h pid core_id) =
           (if SetProcessAffinityMask_ret h hProcess m then Returned
            else Thrown (''Failed to set process affinity mask. Error code: ''
                         @ show_int (GetLastError_ret h
                              [OpenProcess pid, SetProcessAffinityMask hProcess m,
                               CloseHandle hProcess])))"
  using assms by (simp_all add: set_process_affinity_windows_def Let_def)








section \<open>Argument validation\<close>

text \<open>
  Claim C6. Whenever the number of arguments after the program name is not two, the run
  is the usage text on the error stream and exit code 1, and nothing else: the result
  does not depend on the host or on what the arguments contain, so nothing was parsed,
  the number of processors was not asked for, and no operating-system call was made.
\<close>

theorem wrong_argument_count:
  assumes "length args \<noteq> 2"
  shows "main h prog_name args =
     \<lparr>trace =
        [Stderr ''A cross-platform tool to set CPU affinity for a process.'',
         Stderr (''Usage: '' @ prog_name @ '' <pid> <core_id>''),
         Stderr (''Example (Linux):   sudo '' @ prog_name @ '' 12345 0''),
         Stderr (''Example (Windows): '' @ prog_name @ '' 6789 1''),
         Stderr (CHR 0x0A # ''Note: This tool usually requires administrator/root privileges.'')],
      status = Exit 1\<rparr>"
  using assms by (simp add: main_def print_usage_def)

theorem wrong_argument_count_witness:
  "length [''12345'', ''0'', ''1''] \<noteq> 2 \<and>
   main windows_x64 ''affinity.exe'' [''12345'', ''0'', ''1''] =
     \<lparr>trace =
        [Stderr ''A cross-platform tool to set CPU affinity for a process.'',
         Stderr ''Usage: affinity.exe <pid> <core_id>'',
         Stderr ''Example (Linux):   sudo affinity.exe 12345 0'',
         Stderr ''Example (Windows): affinity.exe 6789 1'',
         Stderr (CHR 0x0A # ''Note: This tool usually requires administrator/root privileges.'')],
      status = Exit 1\<rparr>"
  using wrong_argument_count [of "[''12345'', ''0'', ''1'']" windows_x64 "''affinity.exe''"]
  by simp

text \<open>
  Claim C2. When both arguments parse, the host reports \<open>N > 0\<close> processors and the core
  index lies outside \<open>[0, N)\<close>, the program exits with code 1, its error stream is the one
  line that names the core index and the range 0 to \<open>N - 1\<close>, and the only
  operating-system call of the run is the query for the number of processors. With
  \<open>N = 8\<close> and the arguments \<^verbatim>\<open>123 -1\<close> the line reads "Core ID -1 is out of range.
  Available cores on this system: 0 to 7."
\<close>

theorem core_index_out_of_range:
  assumes "stol h a1 = Inr pid_long" and "stoi a2 = Inr core_id"
    and "snd (get_hardware_concurrency h) = N" and "0 < N"
    and "core_id < 0 \<or> N \<le> core_id"
  shows "status (main h prog_name [a1, a2]) = Exit 1 \<and>
         stderr_of (trace (main h prog_name [a1, a2])) =
           [''Error: Core ID '' @ show_int core_id
            @ '' is out of range. Available cores on this system: 0 to ''
            @ show_int (N - 1) @ ''.''] \<and>
         stdout_of (trace (main h prog_name [a1, a2])) = [] \<and>
         syscalls_of (trace (main h prog_name [a1, a2])) = [core_count_query h]"
  using assms(3-5) by (simp add: main_parsed [OF assms(1,2)])

theorem core_index_out_of_range_witness:
  "stol linux_lp64 ''123'' = Inr 123 \<and> stoi ''-1'' = Inr (- 1) \<and>
   snd (get_hardware_concurrency linux_lp64) = 8 \<and>
   status (main linux_lp64 ''affinity'' [''123'', ''-1'']) = Exit 1 \<and>
   stderr_of (trace (main linux_lp64 ''affinity'' [''123'', ''-1''])) =
     [''Error: Core ID -1 is out of range. Available cores on this system: 0 to 7.''] \<and>
   stdout_of (trace (main linux_lp64 ''affinity'' [''123'', ''-1''])) = [] \<and>
   syscalls_of (trace (main linux_lp64 ''affinity'' [''123'', ''-1''])) =
     [Sysconf_NPROCESSORS_ONLN]"
proof -
  have p: "stol linux_lp64 ''123'' = Inr 123"
    by code_simp
  have c: "stoi ''-1'' = Inr (- 1)"
    by code_simp
  have n: "snd (get_hardware_concurrency linux_lp64) = 8"
    by code_simp
  have s: "show_int (- 1) = ''-1''" "show_int 7 = ''7''"
    by code_simp+
  have q: "core_count_query linux_lp64 = Sysconf_NPROCESSORS_ONLN"
    by code_simp
  show ?thesis
    using core_index_out_of_range [OF p c n, of "''affinity''"] p c n s q by simp
qed

text \<open>
  Claim C10. When the conversion of an argument fails, because the text holds no integer
  or because the integer is out of the result type's range, the error stream holds the
  message of that failure followed by the whole usage text, and the exit code is 1.
\<close>

theorem parse_failure_prints_usage:
  assumes "stol h a1 = Inl e \<or> (stol h a1 = Inr pid_long \<and> stoi a2 = Inl e)"
  shows "status (main h prog_name [a1, a2]) = Exit 1 \<and>
         stderr_of (trace (main h prog_name [a1, a2])) =
           [case e of
              Invalid_argument \<Rightarrow> ''Error: Invalid argument. PID and core_id must be integers.''
            | Out_of_range \<Rightarrow> ''Error: Argument is out of range.'',
            ''A cross-platform tool to set CPU affinity for a process.'',
            ''Usage: '' @ prog_name @ '' <pid> <core_id>'',
            ''Example (Linux):   sudo '' @ prog_name @ '' 12345 0'',
            ''Example (Windows): '' @ prog_name @ '' 6789 1'',
            CHR 0x0A # ''Note: This tool usually requires administrator/root privileges.'']"
  by (cases e) (simp_all add: main_parse_failure [OF assms] parse_failure_def stderr_of_print_usage)

theorem parse_failure_prints_usage_witness:
  "stol windows_x64 ''6789'' = Inr 6789 \<and> stoi ''4294967296'' = Inl Out_of_range \<and>
   status (main windows_x64 ''affinity.exe'' [''6789'', ''4294967296'']) = Exit 1 \<and>
   stderr_of (trace (main windows_x64 ''affinity.exe'' [''6789'', ''4294967296''])) =
     [''Error: Argument is out of range.'',
      ''A cross-platform tool to set CPU affinity for a process.'',
      ''Usage: affinity.exe <pid> <core_id>'',
      ''Example (Linux):   sudo affinity.exe 12345 0'',
      ''Example (Windows): affinity.exe 6789 1'',
      CHR 0x0A # ''Note: This tool usually requires administrator/root privileges.'']"
proof -
  have p: "stol windows_x64 ''6789'' = Inr 6789"
    by code_simp
  have c: "stoi ''4294967296'' = Inl Out_of_range"
    by code_simp
  have "stol windows_x64 ''6789'' = Inl Out_of_range
        \<or> (stol windows_x64 ''6789'' = Inr 6789 \<and> stoi ''4294967296'' = Inl Out_of_range)"
    using p c by simp
  from parse_failure_prints_usage [OF this, of "''affinity.exe''"] p c show ?thesis
    by simp
qed

text \<open>
  Claim C7, as amended. An argument that is an integer literal outside the range of its
  result type (\<^verbatim>\<open>long\<close> for the PID, \<^verbatim>\<open>int\<close> for the core index) always ends the run
  with exit code 1 and without any operating-system call. The message is "Error:
  Argument is out of range.", followed by the usage text, when the PID is that literal
  or when the PID was converted and the core index is that literal. A PID text without
  an integer is reported first, with the invalid-argument message, whatever the core
  index is.
\<close>

theorem literal_out_of_range:
  "((integer_literal a1 \<and> \<not> signed_range (long_bits h) (literal_value a1)) \<or>
    (integer_literal a2 \<and> \<not> signed_range int_bits (literal_value a2))
    \<longrightarrow> status (main h prog_name [a1, a2]) = Exit 1 \<and>
        syscalls_of (trace (main h prog_name [a1, a2])) = []) \<and>
   ((integer_literal a1 \<and> \<not> signed_range (long_bits h) (literal_value a1)) \<or>
    (stol h a1 = Inr pid_long \<and> integer_literal a2
     \<and> \<not> signed_range int_bits (literal_value a2))
    \<longrightarrow> stderr_of (trace (main h prog_name [a1, a2])) =
          ''Error: Argument is out of range.'' # stderr_of (print_usage prog_name) \<and>
        sublist ''out of range'' (hd (stderr_of (trace (main h prog_name [a1, a2])))))"
proof (intro conjI impI)
  assume a: "(integer_literal a1 \<and> \<not> signed_range (long_bits h) (literal_value a1)) \<or>
    (integer_literal a2 \<and> \<not> signed_range int_bits (literal_value a2))"
  have "\<exists>e. main h prog_name [a1, a2] = parse_failure prog_name e"
  proof (cases "stol h a1")
    case (Inl e)
    then show ?thesis
      using main_parse_failure [of h a1 e] by blast
  next
    case (Inr p)
    then have "\<not> (integer_literal a1 \<and> \<not> signed_range (long_bits h) (literal_value a1))"
      by (auto simp: stol_def sto_literal split: if_splits)
    with a have "stoi a2 = Inl Out_of_range"
      by (simp add: stoi_def sto_literal)
    with Inr show ?thesis
      using main_parse_failure [of h a1 Out_of_range p a2] by blast
  qed
  then show "status (main h prog_name [a1, a2]) = Exit 1"
    and "syscalls_of (trace (main h prog_name [a1, a2])) = []"
    by (auto simp: parse_failure_shape)
next
  assume a: "(integer_literal a1 \<and> \<not> signed_range (long_bits h) (literal_value a1)) \<or>
    (stol h a1 = Inr pid_long \<and> integer_literal a2
     \<and> \<not> signed_range int_bits (literal_value a2))"
  then have "stol h a1 = Inl Out_of_range
             \<or> (stol h a1 = Inr pid_long \<and> stoi a2 = Inl Out_of_range)"
    by (auto simp: stol_def stoi_def sto_literal)
  then have m: "main h prog_name [a1, a2] = parse_failure prog_name Out_of_range"
    by (rule main_parse_failure)
  show "stderr_of (trace (main h prog_name [a1, a2])) =
          ''Error: Argument is out of range.'' # stderr_of (print_usage prog_name)"
    by (simp add: m parse_failure_def)
  then show "sublist ''out of range'' (hd (stderr_of (trace (main h prog_name [a1, a2]))))"
    using out_of_range_message by simp
qed

theorem literal_out_of_range_witness:
  "integer_literal ''2147483648'' \<and> \<not> signed_range int_bits (literal_value ''2147483648'') \<and>
   stol linux_lp64 ''12'' = Inr 12 \<and>
   status (main linux_lp64 ''affinity'' [''12'', ''2147483648'']) = Exit 1 \<and>
   syscalls_of (trace (main linux_lp64 ''affinity'' [''12'', ''2147483648''])) = [] \<and>
   stderr_of (trace (main linux_lp64 ''affinity'' [''12'', ''2147483648''])) =
     [''Error: Argument is out of range.'',
      ''A cross-platform tool to set CPU affinity for a process.'',
      ''Usage: affinity <pid> <core_id>'',
      ''Example (Linux):   sudo affinity 12345 0'',
      ''Example (Windows): affinity 6789 1'',
      CHR 0x0A # ''Note: This tool usually requires administrator/root privileges.''] \<and>
   sublist ''out of range''
     (hd (stderr_of (trace (main linux_lp64 ''affinity'' [''12'', ''2147483648'']))))"
proof -
  have l: "integer_literal ''2147483648''"
    by code_simp
  have r: "\<not> signed_range int_bits (literal_value ''2147483648'')"
    by code_simp
  have p: "stol linux_lp64 ''12'' = Inr 12"
    by code_simp
  show ?thesis
    using literal_out_of_range [of "''12''" linux_lp64 "''2147483648''" "''affinity''" 12] l r p
    by (simp add: stderr_of_print_usage out_of_range_message)
qed

text \<open>
  Claim C7 as stated fails: with the arguments \<^verbatim>\<open>abc 99999999999\<close> the core index is an
  integer literal beyond \<^verbatim>\<open>int\<close>, yet no line of the error stream contains "out of
  range", because \<^verbatim>\<open>std::stol\<close> has already thrown \<^verbatim>\<open>std::invalid_argument\<close> for
  the PID.
\<close>

theorem invalid_pid_hides_core_overflow:
  "integer_literal ''99999999999'' \<and>
   \<not> signed_range int_bits (literal_value ''99999999999'') \<and>
   stderr_of (trace (main linux_lp64 ''affinity'' [''abc'', ''99999999999''])) =
     [''Error: Invalid argument. PID and core_id must be integers.'',
      ''A cross-platform tool to set CPU affinity for a process.'',
      ''Usage: affinity <pid> <core_id>'',
      ''Example (Linux):   sudo affinity 12345 0'',
      ''Example (Windows): affinity 6789 1'',
      CHR 0x0A # ''Note: This tool usually requires administrator/root privileges.''] \<and>
   \<not> list_ex (sublist ''out of range'')
        (stderr_of (trace (main linux_lp64 ''affinity'' [''abc'', ''99999999999''])))"
  by code_simp

text \<open>
  Claim C4, at the input where the program departs from it. The argument \<^verbatim>\<open>12abc\<close> is
  not an integer, but \<^verbatim>\<open>std::stol\<close> is called without a position pointer and the text
  after the digits is never looked at: the program takes the PID to be 12, calls
  \<^verbatim>\<open>sched_setaffinity\<close> for process 12 and exits with code 0.
\<close>

theorem trailing_text_accepted:
  "\<not> integer_literal ''12abc'' \<and>
   stol linux_lp64 ''12abc'' = Inr 12 \<and>
   syscalls_of (trace (main linux_lp64 ''affinity'' [''12abc'', ''0''])) =
     [Sysconf_NPROCESSORS_ONLN, Sched_setaffinity 12 {0}] \<and>
   stdout_of (trace (main linux_lp64 ''affinity'' [''12abc'', ''0''])) =
     [''Running on Linux.'', ''Successfully set affinity for PID 12 to core 0''] \<and>
   status (main linux_lp64 ''affinity'' [''12abc'', ''0'']) = Exit 0"
  by code_simp

section \<open>The call of \<^verbatim>\<open>set_process_affinity\<close>\<close>

text \<open>
  The part of the call that keeps the PID: when both arguments parse, the core index
  passes the bounds check and the PID is a value of the platform's own
  process-identifier type, \<^verbatim>\<open>set_process_affinity\<close> receives exactly the integer the
  user wrote: on Linux that integer is the first argument of \<^verbatim>\<open>sched_setaffinity\<close>, on
  Windows the one of \<^verbatim>\<open>OpenProcess\<close>.
\<close>

lemma native_pid_passed_unchanged:
  assumes "stol h a1 = Inr pid_long" and "stoi a2 = Inr core_id"
    and "snd (get_hardware_concurrency h) = 0
         \<or> (0 \<le> core_id \<and> core_id < snd (get_hardware_concurrency h))"
    and "native_pid h pid_long"
  shows "main h prog_name [a1, a2] =
           finish [Sys (core_count_query h)] (set_process_affinity h pid_long core_id) \<and>
         (os h = Linux \<longrightarrow>
            syscalls_of (trace (main h prog_name [a1, a2])) =
              [Sysconf_NPROCESSORS_ONLN,
               Sched_setaffinity pid_long (CPU_SET h core_id CPU_ZERO)]) \<and>
         (os h = Windows \<longrightarrow>
            prefix [GetSystemInfo, OpenProcess pid_long]
              (syscalls_of (trace (main h prog_name [a1, a2]))))"
proof -
  have "main h prog_name [a1, a2] =
          finish [Sys (core_count_query h)] (set_process_affinity h pid_long core_id)"
    using assms(3) pid_param_native [OF assms(4)]
    by (auto simp: main_parsed [OF assms(1,2)])
  then show ?thesis
    using main_call_syscalls [of h prog_name a1 a2 pid_long core_id] by simp
qed

lemma native_pid_passed_unchanged_example:
  "(stol linux_lp64 ''12'' = Inr 12 \<and> stoi ''3'' = Inr 3 \<and>
    snd (get_hardware_concurrency linux_lp64) = 8 \<and> native_pid linux_lp64 12 \<and>
    syscalls_of (trace (main linux_lp64 ''affinity'' [''12'', ''3''])) =
      [Sysconf_NPROCESSORS_ONLN, Sched_setaffinity 12 {3}]) \<and>
   (stol windows_x64 ''6789'' = Inr 6789 \<and> stoi ''1'' = Inr 1 \<and>
    snd (get_hardware_concurrency windows_x64) = 8 \<and> native_pid windows_x64 6789 \<and>
    prefix [GetSystemInfo, OpenProcess 6789]
      (syscalls_of (trace (main windows_x64 ''affinity.exe'' [''6789'', ''1'']))))"
proof -
  have l: "stol linux_lp64 ''12'' = Inr 12" "stoi ''3'' = Inr 3"
    "snd (get_hardware_concurrency linux_lp64) = 8" "native_pid linux_lp64 12"
    "os linux_lp64 = Linux" "CPU_SET linux_lp64 3 CPU_ZERO = {3}"
    by code_simp+
  have w: "stol windows_x64 ''6789'' = Inr 6789" "stoi ''1'' = Inr 1"
    "snd (get_hardware_concurrency windows_x64) = 8" "native_pid windows_x64 6789"
    "os windows_x64 = Windows"
    by code_simp+
  have lb: "snd (get_hardware_concurrency linux_lp64) = 0
            \<or> (0 \<le> (3::int) \<and> 3 < snd (get_hardware_concurrency linux_lp64))"
    and wb: "snd (get_hardware_concurrency windows_x64) = 0
            \<or> (0 \<le> (1::int) \<and> 1 < snd (get_hardware_concurrency windows_x64))"
    using l(3) w(3) by simp_all
  have "syscalls_of (trace (main linux_lp64 ''affinity'' [''12'', ''3''])) =
      [Sysconf_NPROCESSORS_ONLN, Sched_setaffinity 12 {3}]"
    using native_pid_passed_unchanged [OF l(1,2) lb l(4), THEN conjunct2, of "''affinity''"]
      l(5,6) by simp
  moreover have "prefix [GetSystemInfo, OpenProcess 6789]
      (syscalls_of (trace (main windows_x64 ''affinity.exe'' [''6789'', ''1''])))"
    using native_pid_passed_unchanged [OF w(1,2) wb w(4), THEN conjunct2, of "''affinity.exe''"]
      w(5) by simp
  ultimately show ?thesis
    using l w by simp
qed

text \<open>
  Claim C1, at the inputs where the program departs from it. A PID that
  \<^verbatim>\<open>std::stol\<close> accepts but that is not a value of the platform's own
  process-identifier type should be rejected before any operating-system call. The
  program checks the range of \<^verbatim>\<open>long\<close> only, and the cast at the call is to \<^verbatim>\<open>long\<close>
  itself, so the implicit conversion to the parameter's type changes the value. On 64-bit
  Linux the argument \<^verbatim>\<open>4294967297\<close> fits \<^verbatim>\<open>long\<close> but not \<^verbatim>\<open>pid_t\<close>: the low 32 bits
  are kept, \<^verbatim>\<open>sched_setaffinity\<close> is called for process 1 and the exit code is 0. On
  Windows the argument \<^verbatim>\<open>-1\<close> fits \<^verbatim>\<open>long\<close> but is no \<^verbatim>\<open>DWORD\<close>: \<^verbatim>\<open>OpenProcess\<close> is
  called for process 4294967295.
\<close>

theorem pid_beyond_pid_t_wraps:
  "stol linux_lp64 ''4294967297'' = Inr 4294967297 \<and>
   \<not> native_pid linux_lp64 4294967297 \<and>
   syscalls_of (trace (main linux_lp64 ''affinity'' [''4294967297'', ''0''])) =
     [Sysconf_NPROCESSORS_ONLN, Sched_setaffinity 1 {0}] \<and>
   stdout_of (trace (main linux_lp64 ''affinity'' [''4294967297'', ''0''])) =
     [''Running on Linux.'', ''Successfully set affinity for PID 1 to core 0''] \<and>
   status (main linux_lp64 ''affinity'' [''4294967297'', ''0'']) = Exit 0 \<and>
   stol windows_x64 ''-1'' = Inr (- 1) \<and>
   \<not> native_pid windows_x64 (- 1) \<and>
   syscalls_of (trace (main windows_x64 ''affinity.exe'' [''-1'', ''0''])) =
     [GetSystemInfo, OpenProcess 4294967295, GetLastError] \<and>
   stderr_of (trace (main windows_x64 ''affinity.exe'' [''-1'', ''0''])) =
     [''An error occurred: Could not open process with PID 4294967295. Error code: 5'',
      privilege_hint]"
  by code_simp

text \<open>
  Claim C3. When both arguments parse and the number of processors comes back as 0, the
  bounds check is skipped for every core index, negative ones included, and the program
  goes on to \<^verbatim>\<open>set_process_affinity\<close>: on Linux \<^verbatim>\<open>sched_setaffinity\<close> is called, on
  Windows \<^verbatim>\<open>OpenProcess\<close>, and on any other host the call throws at once. The count is 0
  whenever \<^verbatim>\<open>sysconf\<close> fails (\<open>get_hardware_concurrency_sentinel\<close>).
\<close>

theorem unknown_core_count_skips_bounds_check:
  assumes "stol h a1 = Inr pid_long" and "stoi a2 = Inr core_id"
    and "snd (get_hardware_concurrency h) = 0"
  shows "main h prog_name [a1, a2] =
           finish [Sys (core_count_query h)]
             (set_process_affinity h (pid_param h pid_long) core_id) \<and>
         (os h = Linux \<longrightarrow>
            syscalls_of (trace (main h prog_name [a1, a2])) =
              [Sysconf_NPROCESSORS_ONLN,
               Sched_setaffinity (pid_param h pid_long) (CPU_SET h core_id CPU_ZERO)]) \<and>
         (os h = Windows \<longrightarrow>
            prefix [GetSystemInfo, OpenProcess (pid_param h pid_long)]
              (syscalls_of (trace (main h prog_name [a1, a2])))) \<and>
         (os h = Other \<longrightarrow>
            stderr_of (trace (main h prog_name [a1, a2])) =
              [''An error occurred: Unsupported operating system.'', privilege_hint])"
proof -
  have "main h prog_name [a1, a2] =
          finish [Sys (core_count_query h)]
            (set_process_affinity h (pid_param h pid_long) core_id)"
    using assms(3) by (simp add: main_parsed [OF assms(1,2)])
  then show ?thesis
    using main_call_syscalls [of h prog_name a1 a2 "pid_param h pid_long" core_id] by simp
qed


theorem unknown_core_count_skips_bounds_check_witness:
  "(stol linux_lp64_unknown ''12'' = Inr 12 \<and> stoi ''-1'' = Inr (- 1) \<and>
    snd (get_hardware_concurrency linux_lp64_unknown) = 0 \<and>
    syscalls_of (trace (main linux_lp64_unknown ''affinity'' [''12'', ''-1''])) =
      [Sysconf_NPROCESSORS_ONLN, Sched_setaffinity 12 {}]) \<and>
   (stol windows_unknown ''6789'' = Inr 6789 \<and> stoi ''-1'' = Inr (- 1) \<and>
    snd (get_hardware_concurrency windows_unknown) = 0 \<and>
    prefix [GetSystemInfo, OpenProcess 6789]
      (syscalls_of (trace (main windows_unknown ''affinity.exe'' [''6789'', ''-1''])))) \<and>
   (stol other_unknown ''12'' = Inr 12 \<and> stoi ''-1'' = Inr (- 1) \<and>
    snd (get_hardware_concurrency other_unknown) = 0 \<and>
    stderr_of (trace (main other_unknown ''affinity'' [''12'', ''-1''])) =
      [''An error occurred: Unsupported operating system.'', privilege_hint])"
proof -
  have l: "stol linux_lp64_unknown ''12'' = Inr 12" "stoi ''-1'' = Inr (- 1)"
    "snd (get_hardware_concurrency linux_lp64_unknown) = 0"
    "os linux_lp64_unknown = Linux" "pid_param linux_lp64_unknown 12 = 12"
    "CPU_SET linux_lp64_unknown (- 1) CPU_ZERO = {}"
    by code_simp+
  have w: "stol windows_unknown ''6789'' = Inr 6789"
    "snd (get_hardware_concurrency windows_unknown) = 0"
    "os windows_unknown = Windows" "pid_param windows_unknown 6789 = 6789"
    by code_simp+
  have o: "stol other_unknown ''12'' = Inr 12"
    "snd (get_hardware_concurrency other_unknown) = 0"
    "os other_unknown = Other"
    by code_simp+
  have "syscalls_of (trace (main linux_lp64_unknown ''affinity'' [''12'', ''-1''])) =
      [Sysconf_NPROCESSORS_ONLN, Sched_setaffinity 12 {}]"
    using unknown_core_count_skips_bounds_check [OF l(1,2,3), THEN conjunct2, of "''affinity''"]
      l(4,5,6) by simp
  moreover have "prefix [GetSystemInfo, OpenProcess 6789]
      (syscalls_of (trace (main windows_unknown ''affinity.exe'' [''6789'', ''-1''])))"
    using unknown_core_count_skips_bounds_check
      [OF w(1) l(2) w(2), THEN conjunct2, of "''affinity.exe''"] w(3,4) by simp
  moreover have "stderr_of (trace (main other_unknown ''affinity'' [''12'', ''-1''])) =
      [''An error occurred: Unsupported operating system.'', privilege_hint]"
    using unknown_core_count_skips_bounds_check
      [OF o(1) l(2) o(2), THEN conjunct2, of "''affinity''"] o(3) by simp
  ultimately show ?thesis
    using l w o by simp
qed

section \<open>Inside \<^verbatim>\<open>set_process_affinity\<close>\<close>

text \<open>
  Claim C5, as amended. For every core index from 0 up to the number of positions of the
  platform's affinity value (the pointer's width on Windows, 1024 on Linux), which
  covers every index that passed the bounds check against a known number of processors
  no larger than that, the value built by \<^verbatim>\<open>set_process_affinity\<close> has exactly one bit
  set, at the core index: the Windows mask is \<open>2 ^ core_id\<close> and is what
  \<^verbatim>\<open>SetProcessAffinityMask\<close> receives, the Linux set is \<open>{core_id}\<close> and is what
  \<^verbatim>\<open>sched_setaffinity\<close> receives.
\<close>

theorem single_core_mask:
  assumes "0 \<le> core_id" and "core_id < mask_capacity h"
  shows "(os h = Windows \<longrightarrow>
            make_affinity_mask h core_id = Some (2 ^ nat core_id) \<and>
            (\<forall>i. bit ((2::int) ^ nat core_id) i \<longleftrightarrow> i = nat core_id) \<and>
            (OpenProcess_ret h pid = Some hProcess \<longrightarrow>
               prefix [OpenProcess pid, SetProcessAffinityMask hProcess (2 ^ nat core_id)]
                 (syscalls_of (fst (set_process_affinity h pid core_id))))) \<and>
         (os h = Linux \<longrightarrow>
            CPU_SET h core_id CPU_ZERO = {nat core_id} \<and>
            syscalls_of (fst (set_process_affinity h pid core_id)) =
              [Sched_setaffinity pid {nat core_id}])"
proof (intro conjI impI)
  assume w: "os h = Windows"
  then have c: "core_id < int (pointer_bits h)"
    using assms(2) by (simp add: mask_capacity_def)
  show m: "make_affinity_mask h core_id = Some (2 ^ nat core_id)"
    using assms(1) c by (rule make_affinity_mask_single)
  show "\<forall>i. bit ((2::int) ^ nat core_id) i \<longleftrightarrow> i = nat core_id"
    by (simp add: bit_exp_iff)
  assume "OpenProcess_ret h pid = Some hProcess"
  from syscalls_of_windows_opened(1) [OF this m]
  show "prefix [OpenProcess pid, SetProcessAffinityMask hProcess (2 ^ nat core_id)]
          (syscalls_of (fst (set_process_affinity h pid core_id)))"
    using w by (simp add: set_process_affinity_def)
next
  assume l: "os h = Linux"
  then have "core_id < CPU_SETSIZE"
    using assms(2) by (simp add: mask_capacity_def)
  with assms(1) show s: "CPU_SET h core_id CPU_ZERO = {nat core_id}"
    by (rule CPU_SET_single)
  show "syscalls_of (fst (set_process_affinity h pid core_id)) =
          [Sched_setaffinity pid {nat core_id}]"
    using l s by (simp add: set_process_affinity_def syscalls_of_linux)
qed

theorem single_core_mask_witness:
  "((0::int) \<le> 3 \<and> 3 < mask_capacity windows_x64 \<and>
    OpenProcess_ret windows_x64 6789 = Some 256 \<and>
    make_affinity_mask windows_x64 3 = Some 8 \<and>
    prefix [OpenProcess 6789, SetProcessAffinityMask 256 8]
      (syscalls_of (fst (set_process_affinity windows_x64 6789 3)))) \<and>
   ((0::int) \<le> 5 \<and> 5 < mask_capacity linux_lp64 \<and>
    syscalls_of (fst (set_process_affinity linux_lp64 12 5)) = [Sched_setaffinity 12 {5}])"
proof -
  have w: "(0::int) \<le> 3" "3 < mask_capacity windows_x64" "os windows_x64 = Windows"
    "OpenProcess_ret windows_x64 6789 = Some 256"
    by code_simp+
  have l: "(0::int) \<le> 5" "5 < mask_capacity linux_lp64" "os linux_lp64 = Linux"
    by code_simp+
  have n: "nat 3 = 3" "nat 5 = 5" "(2::int) ^ 3 = 8"
    by simp_all
  show ?thesis
    using single_core_mask [OF w(1,2), of 6789 256] single_core_mask [OF l(1,2), of 12 0]
      w l n by simp
qed

text \<open>
  Claim C5 as stated fails: when \<^verbatim>\<open>sysconf\<close> fails the bounds check is skipped, the core
  index \<open>-1\<close> reaches \<^verbatim>\<open>set_process_affinity\<close>, \<^verbatim>\<open>CPU_SET\<close> leaves the set as it is, and
  \<^verbatim>\<open>sched_setaffinity\<close> receives the empty set.
\<close>

theorem unchecked_core_index_gives_empty_set:
  "stol linux_lp64_unknown ''12'' = Inr 12 \<and> stoi ''-1'' = Inr (- 1) \<and>
   syscalls_of (trace (main linux_lp64_unknown ''affinity'' [''12'', ''-1''])) =
     [Sysconf_NPROCESSORS_ONLN, Sched_setaffinity 12 {}]"
  by code_simp

text \<open>
  Claim C8. On Windows, whenever \<^verbatim>\<open>OpenProcess\<close> has returned a handle and
  \<^verbatim>\<open>set_process_affinity\<close> returns or throws, the calls it made contain exactly one
  \<^verbatim>\<open>CloseHandle\<close>, for that handle: as the last call before a normal return, and
  followed only by \<^verbatim>\<open>GetLastError\<close> before the exception leaves the function.
\<close>

theorem handle_released_exactly_once:
  assumes "os h = Windows" and "OpenProcess_ret h pid = Some hProcess"
    and "set_process_affinity h pid core_id = (t, r)" and "r \<noteq> Undefined"
  shows "count_list (syscalls_of t) (CloseHandle hProcess) = 1 \<and>
         filter is_CloseHandle (syscalls_of t) = [CloseHandle hProcess] \<and>
         (r = Returned \<longrightarrow> suffix [CloseHandle hProcess] (syscalls_of t)) \<and>
         (r \<noteq> Returned \<longrightarrow>
            (\<exists>what. r = Thrown what) \<and>
            suffix [CloseHandle hProcess, GetLastError] (syscalls_of t))"
proof -
  have tr: "set_process_affinity_windows h pid core_id = (t, r)"
    using assms(1,3) by (simp add: set_process_affinity_def)
  obtain m where m: "make_affinity_mask h core_id = Some m"
    using tr assms(2,4)
    by (cases "make_affinity_mask h core_id")
       (auto simp: set_process_affinity_windows_def Let_def)
  have t: "syscalls_of t =
           [OpenProcess pid, SetProcessAffinityMask hProcess m, CloseHandle hProcess]
           @ (if SetProcessAffinityMask_ret h hProcess m then [] else [GetLastError])"
    using syscalls_of_windows_opened(1) [OF assms(2) m] tr by simp
  have r: "r = (if SetProcessAffinityMask_ret h hProcess m then Returned
            else Thrown (''Failed to set process affinity mask. Error code: ''
                         @ show_int (GetLastError_ret h
                              [OpenProcess pid, SetProcessAffinityMask hProcess m,
                               CloseHandle hProcess])))"
    using syscalls_of_windows_opened(2) [OF assms(2) m] tr by simp
  show ?thesis
    by (cases "SetProcessAffinityMask_ret h hProcess m") (simp_all add: t r suffix_def)
qed

theorem handle_released_exactly_once_witness:
  "(os windows_x64 = Windows \<and> OpenProcess_ret windows_x64 6789 = Some 256 \<and>
    snd (set_process_affinity windows_x64 6789 3) = Returned \<and>
    count_list (syscalls_of (fst (set_process_affinity windows_x64 6789 3))) (CloseHandle 256) = 1 \<and>
    suffix [CloseHandle 256] (syscalls_of (fst (set_process_affinity windows_x64 6789 3)))) \<and>
   (snd (set_process_affinity windows_x64 6789 7) =
      Thrown ''Failed to set process affinity mask. Error code: 87'' \<and>
    count_list (syscalls_of (fst (set_process_affinity windows_x64 6789 7))) (CloseHandle 256) = 1 \<and>
    suffix [CloseHandle 256, GetLastError]
      (syscalls_of (fst (set_process_affinity windows_x64 6789 7))))"
proof -
  have w: "os windows_x64 = Windows" "OpenProcess_ret windows_x64 6789 = Some 256"
    by code_simp+
  have a: "snd (set_process_affinity windows_x64 6789 3) = Returned"
    "snd (set_process_affinity windows_x64 6789 3) \<noteq> Undefined"
    by code_simp+
  have b: "snd (set_process_affinity windows_x64 6789 7) =
      Thrown ''Failed to set process affinity mask. Error code: 87''"
    "snd (set_process_affinity windows_x64 6789 7) \<noteq> Undefined"
    "snd (set_process_affinity windows_x64 6789 7) \<noteq> Returned"
    by code_simp+
  show ?thesis
    using handle_released_exactly_once [OF w surjective_pairing a(2)]
      handle_released_exactly_once [OF w surjective_pairing b(2)] w a b
    by simp
qed

section \<open>Exit code and error report\<close>




end
